theory Spec2Isabelle
  imports Main
begin

section \<open>Invocation flags and mode dispatch\<close>

text \<open>
  The package-level flag variables of the launcher. \<open>isClear\<close> is declared in the same
  \<open>var\<close> block; it is never bound to a command-line flag and starts \<open>false\<close>.
\<close>

record flags =
  flagDevelop :: bool
  flagStart :: bool
  flagStop :: bool
  flagReload :: bool
  flagDaemon :: bool
  isInstall :: bool
  isUninstall :: bool
  isForce :: bool
  flagService :: bool
  isMaster :: bool
  isClear :: bool
  flagConf :: string
  flagName :: string
  flagAppKey :: string
  flagPipe :: string
  flagPPid :: int

text \<open>The defaults registered by the \<open>BoolVar\<close>, \<open>StringVar\<close> and \<open>IntVar\<close> calls.\<close>

definition flag_defaults :: flags where
  "flag_defaults =
     \<lparr> flagDevelop = False, flagStart = False, flagStop = False, flagReload = False,
       flagDaemon = False, isInstall = False, isUninstall = False, isForce = False,
       flagService = False, isMaster = False, isClear = False,
       flagConf = [], flagName = [], flagAppKey = [], flagPipe = [], flagPPid = 0 \<rparr>"

text \<open>\<open>strings.HasPrefix\<close>.\<close>

definition HasPrefix :: "string \<Rightarrow> string \<Rightarrow> bool" where
  "HasPrefix s p = (take (length p) s = p)"

text \<open>
  \<open>parseCommandLine\<close>, from the line after \<open>f.Parse(os.Args[1:])\<close> on. The first argument is
  \<open>os.Args[1:]\<close>; the second holds the flag variables as the standard library's
  \<open>FlagSet.Parse\<close> left them (the defaults when there is no argument). The closing call of
  \<open>confParse\<close> belongs to the configuration loader and is outside this development.
\<close>

definition parseCommandLine :: "string list \<Rightarrow> 'a flags_scheme \<Rightarrow> 'a flags_scheme" where
  "parseCommandLine args f0 =
    (let f1 = (if length args + 1 = 1 then f0\<lparr>flagStart := True\<rparr> else f0);
         f2 = (if flagName f1 \<noteq> [] then f1\<lparr>isInstall := True\<rparr> else f1);
         f3 = (if \<not> isInstall f2
               then (if \<exists>k \<in> set args. HasPrefix k ''-install''
                     then f2\<lparr>isInstall := True\<rparr> else f2)
               else f2);
         f4 = (if isInstall f3 then f3\<lparr>flagDaemon := False\<rparr> else f3);
         f5 = (if flagDevelop f4 \<or> flagStop f4 \<or> flagReload f4 \<or> flagDaemon f4
                  \<or> isInstall f4 \<or> isUninstall f4 \<or> flagService f4
               then f4\<lparr>flagStart := False\<rparr> else f4);
         f6 = (if flagService f5 then f5\<lparr>isMaster := flagService f5\<rparr> else f5)
     in f6)"

text \<open>The branch that \<open>Command\<close> takes: its \<open>if\<close>/\<open>else if\<close> chain, in the source's order.\<close>

datatype mode = Start | Service | Stop | Reload | Daemon | Install | Uninstall

definition commandBranch :: "'a flags_scheme \<Rightarrow> mode option" where
  "commandBranch f =
    (if flagStart f then Some Start
     else if flagService f then Some Service
     else if flagStop f then Some Stop
     else if flagReload f then Some Reload
     else if flagDaemon f then Some Daemon
     else if isInstall f then Some Install
     else if isUninstall f then Some Uninstall
     else None)"

text \<open>The mode flags that are set once the flags are resolved.\<close>

definition modeFlags :: "'a flags_scheme \<Rightarrow> mode list" where
  "modeFlags f =
     (if flagStart f then [Start] else []) @ (if flagService f then [Service] else []) @
     (if flagStop f then [Stop] else []) @ (if flagReload f then [Reload] else []) @
     (if flagDaemon f then [Daemon] else []) @ (if isInstall f then [Install] else []) @
     (if isUninstall f then [Uninstall] else [])"


section \<open>Strings: the standard-library functions the launcher calls\<close>

text \<open>
  \<open>strconv.Itoa\<close>: decimal digits, most significant first, with a leading minus sign for a
  negative number. The digits come from the library's digit table; \<open>digit\<close> is only applied
  below 10.
\<close>

definition digit :: "nat \<Rightarrow> char" where
  "digit d = ''0123456789'' ! d"

fun utoa :: "nat \<Rightarrow> string" where
  "utoa n = (if n < 10 then [digit n] else utoa (n div 10) @ [digit (n mod 10)])"

declare utoa.simps [simp del]

definition Itoa :: "int \<Rightarrow> string" where
  "Itoa i = (if i < 0 then CHR ''-'' # utoa (nat (- i)) else utoa (nat i))"

text \<open>
  \<open>strconv.Atoi\<close>: an optional sign, then at least one decimal digit and nothing else; the
  value has to fit Go's 64-bit \<open>int\<close>. \<open>None\<close> stands for a non-nil error.
\<close>

definition digitVal :: "char \<Rightarrow> nat option" where
  "digitVal c = (let v = (of_char c :: nat) in if 48 \<le> v \<and> v \<le> 57 then Some (v - 48) else None)"

fun digitsVal :: "nat \<Rightarrow> string \<Rightarrow> nat option" where
  "digitsVal n [] = Some n"
| "digitsVal n (c # cs) =
     (case digitVal c of None \<Rightarrow> None | Some d \<Rightarrow> digitsVal (n * 10 + d) cs)"

definition Atoi :: "string \<Rightarrow> int option" where
  "Atoi s =
    (case s of
       [] \<Rightarrow> None
     | c # cs \<Rightarrow>
         (let ds = (if c = CHR ''-'' \<or> c = CHR ''+'' then cs else s) in
          if ds = [] then None
          else (case digitsVal 0 ds of
                  None \<Rightarrow> None
                | Some n \<Rightarrow>
                    (let v = (if c = CHR ''-'' then - int n else int n) in
                     if - (2 ^ 63) \<le> v \<and> v < 2 ^ 63 then Some v else None))))"

text \<open>
  \<open>strings.Split\<close> with a one-byte separator: the pieces between the separators, so a
  string without the separator (the empty string too) gives one piece.
\<close>

fun Split :: "string \<Rightarrow> char \<Rightarrow> string list" where
  "Split [] sep = [[]]"
| "Split (c # cs) sep =
     (if c = sep then [] # Split cs sep
      else (case Split cs sep of [] \<Rightarrow> [[c]] | h # t \<Rightarrow> (c # h) # t))"

text \<open>
  \<open>strings.TrimSpace\<close> on a string of ASCII bytes: tab, line feed, vertical tab, form feed,
  carriage return and space are removed at both ends.
\<close>

definition isSpace :: "char \<Rightarrow> bool" where
  "isSpace c = ((of_char c :: nat) \<in> {9, 10, 11, 12, 13, 32})"

definition TrimSpace :: "string \<Rightarrow> string" where
  "TrimSpace s = rev (dropWhile isSpace (rev (dropWhile isSpace s)))"

section \<open>Process state\<close>

text \<open>
  \<open>exec.Cmd\<close>, as far as the launcher reads it: \<open>Process\<close> is the pid of the started process
  (\<open>None\<close> when \<open>cmd.Process\<close> is nil, which is how a failed \<open>Start\<close> leaves it) and
  \<open>ProcessState\<close> the exit code that \<open>Wait\<close> stored (\<open>None\<close> when it is nil). The registry entry
  holds a pointer to the command, so what \<open>Wait\<close> stores is seen through the entry; the other
  fields of \<open>work\<close> are values and are copied by \<open>w := app.cmd[i]\<close>.
\<close>

record Cmd =
  Process :: "int option"
  ProcessState :: "int option"

record work =
  key :: string
  cmd :: Cmd
  runing :: bool
  exitCount :: int

datatype pid_error = CannotCreatePid | CannotWritePid

datatype mgr_error = MgrCreateFailed | MgrWriteFailed | MgrSyncFailed

datatype os_error = NoSuchFile | NoSuchProcess

fun pid_error_text :: "pid_error \<Rightarrow> string" where
  "pid_error_text CannotCreatePid = ''cannot be created pid file''"
| "pid_error_text CannotWritePid = ''cannot be write pid file''"

text \<open>What the process does to the outside, in the order it does it.\<close>

datatype event =
    Println string
  | LogInfo string
  | LogError string
  | LogErr string
  | CmdStart "string list" "int option"
  | Signal int
  | Kill int
  | Sleep nat
  | ClearLogger
  | IDClear

text \<open>
  What the environment does while the master monitors: \<open>WaitDone i c\<close> is the wait task of
  registry entry \<open>i\<close> coming back from \<open>cmd.Wait()\<close> (with exit code \<open>c\<close>, or with nothing when
  the process had never started) and sending on the completion channel; \<open>StopCallback\<close> is the
  service manager calling \<open>daemonExecutable.Stop\<close>.
\<close>

datatype sched = WaitDone nat "int option" | StopCallback

text \<open>
  The globals (\<open>app\<close> and the flags) together with the part of the machine the launcher
  touches. \<open>Args0\<close> is \<open>os.Args[0]\<close>, \<open>Getpid\<close> is \<open>os.Getpid()\<close>, \<open>windows\<close> is
  \<open>runtime.GOOS == "windows"\<close>; \<open>confs\<close> are the keys of \<open>Confs()\<close> and \<open>confPath\<close> is
  \<open>ConfPath()\<close>, both of the configuration loader. \<open>files\<close> maps a path to the content of the
  file there; a path in \<open>denied\<close> cannot be opened for writing and a write to a path in \<open>wfail\<close>
  fails. \<open>live\<close> are the pids of the processes that exist. \<open>starts\<close> gives the outcome of each
  coming \<open>cmd.Start()\<close> (the pid, or \<open>None\<close> for a failure; a failure once the list is used
  up), \<open>pending\<close> the coming events of the monitoring phase, and \<open>trace\<close> what was done so far.
\<close>

record state = flags +
  pipeName :: string
  app_runing :: bool
  app_cmd :: "work list"
  Args0 :: string
  Getpid :: int
  windows :: bool
  confs :: "string list"
  confPath :: string
  files :: "string \<rightharpoonup> string"
  denied :: "string set"
  wfail :: "string set"
  live :: "int set"
  starts :: "int option list"
  pending :: "sched list"
  trace :: "event list"

text \<open>
  How a call ends: it returns a value, it panics, the process exits with a code
  (\<open>os.Exit\<close>), or it blocks for ever on the completion channel.
\<close>

datatype 'a result = Return 'a state | Panics state | Exits int state | Blocks state

fun andThen :: "'a result \<Rightarrow> ('a \<Rightarrow> state \<Rightarrow> 'b result) \<Rightarrow> 'b result" where
  "andThen (Return x s) f = f x s"
| "andThen (Panics s) f = Panics s"
| "andThen (Exits c s) f = Exits c s"
| "andThen (Blocks s) f = Blocks s"

fun final :: "'a result \<Rightarrow> state" where
  "final (Return x s) = s"
| "final (Panics s) = s"
| "final (Exits c s) = s"
| "final (Blocks s) = s"

definition emit :: "event \<Rightarrow> state \<Rightarrow> state" where
  "emit e s = s\<lparr>trace := trace s @ [e]\<rparr>"


section \<open>The pid file\<close>

text \<open>
  The loop of \<open>logPid\<close> over \<open>app.cmd\<close>: \<open>index\<close> is the position in the registry, so the comma
  is left out only before entry 0. Reading \<open>p.cmd.Process.Pid\<close> of a command whose \<open>Process\<close>
  is nil is a nil pointer dereference: \<open>None\<close>.
\<close>

fun pidsLoop :: "nat \<Rightarrow> work list \<Rightarrow> string \<Rightarrow> string option" where
  "pidsLoop index [] pids = Some pids"
| "pidsLoop index (p # ps) pids =
     (if runing p
      then (let pids1 = (if index > 0 then pids @ '','' else pids) in
            case Process (cmd p) of
              None \<Rightarrow> None
            | Some n \<Rightarrow> pidsLoop (index + 1) ps (pids1 @ Itoa n))
      else pidsLoop (index + 1) ps pids)"

definition logPid :: "state \<Rightarrow> pid_error option result" where
  "logPid s =
    (let pidPath = Args0 s @ ''.pid'' in
     if pidPath \<in> denied s then Return (Some CannotCreatePid) s
     else
       (let s1 = s\<lparr>files := (files s)(pidPath \<mapsto> [])\<rparr>;
            pids = Itoa (Getpid s1) @ ''|'' @ pipeName s1 @ '':''
        in case pidsLoop 0 (app_cmd s1) pids of
             None \<Rightarrow> Panics s1
           | Some pids' \<Rightarrow>
               if pidPath \<in> wfail s1 then Return (Some CannotWritePid) s1
               else Return None (s1\<lparr>files := (files s1)(pidPath \<mapsto> pids')\<rparr>)))"

text \<open>\<open>removePid\<close> hands back what \<open>os.Remove\<close> returns.\<close>

definition removePid :: "state \<Rightarrow> os_error option \<times> state" where
  "removePid s =
    (let pidPath = Args0 s @ ''.pid'' in
     case files s pidPath of
       None \<Rightarrow> (Some NoSuchFile, s)
     | Some c \<Rightarrow> (None, s\<lparr>files := (files s)(pidPath := None)\<rparr>))"

text \<open>The loop of \<open>getWorkPids\<close> over the pieces: a piece that \<open>Atoi\<close> rejects is skipped.\<close>

fun atoiLoop :: "string list \<Rightarrow> int list \<Rightarrow> int list" where
  "atoiLoop [] pids = pids"
| "atoiLoop (v # vs) pids =
     (case Atoi v of None \<Rightarrow> atoiLoop vs pids | Some vv \<Rightarrow> atoiLoop vs (pids @ [vv]))"

text \<open>
  \<open>getWorkPids\<close>. With no pid file \<open>os.Open\<close> gives a nil file, \<open>ioutil.ReadAll\<close> on it
  returns an error and the result is nil. \<open>cs[1]\<close> on a one-element slice is an index out
  of range. The nil slice and the empty slice are both \<open>[]\<close>: the callers only range over it.
\<close>

definition getWorkPids :: "state \<Rightarrow> int list result" where
  "getWorkPids s =
    (let pidPath = Args0 s @ ''.pid'' in
     case files s pidPath of
       None \<Rightarrow> Return [] s
     | Some c \<Rightarrow>
         (let cs = Split c CHR '':'' in
          if length cs \<le> 1 then Panics s
          else (let cs' = Split (cs ! 1) CHR '','';
                    pids = atoiLoop cs' []
                in Return pids s)))"

section \<open>Cleanup\<close>

definition clear :: "state \<Rightarrow> state" where
  "clear s =
    (if isClear s then s
     else (let s1 = s\<lparr>isClear := True\<rparr>;
               s2 = emit ClearLogger s1;
               s3 = emit IDClear s2
           in snd (removePid s3)))"

section \<open>Signals, stop and reload\<close>

text \<open>
  \<open>sendSignal\<close>; the signal is \<open>syscall.SIGINT\<close> at every call site. \<open>os.FindProcess\<close> cannot
  fail on Unix; on Windows it fails for a pid that does not exist. \<open>Signal pid\<close> records the
  call \<open>pro.Signal(sig)\<close>, which reports an error for a process that is gone, and \<open>Kill pid\<close>
  the call \<open>pro.Kill()\<close>, whose result is dropped.
\<close>

definition sendSignal :: "int \<Rightarrow> state \<Rightarrow> os_error option \<times> state" where
  "sendSignal pid s =
    (if windows s \<and> pid \<notin> live s then (Some NoSuchProcess, s)
     else if windows s then (None, emit (Kill pid) s)
     else (if pid \<in> live s then None else Some NoSuchProcess, emit (Signal pid) s))"

fun signalLoop :: "int list \<Rightarrow> state \<Rightarrow> state" where
  "signalLoop [] s = s"
| "signalLoop (pid # pids) s = signalLoop pids (snd (sendSignal pid s))"

definition serviceStop :: "state \<Rightarrow> unit result" where
  "serviceStop s =
     andThen (getWorkPids s) (\<lambda>pids s1. Return () (clear (signalLoop pids s1)))"

definition stop :: "state \<Rightarrow> unit result" where
  "stop s =
     andThen (getWorkPids s) (\<lambda>pids s1. Exits 0 (emit (Sleep 30) (signalLoop pids s1)))"

text \<open>\<open>daemonExecutable.Stop\<close>.\<close>

definition daemonStop :: "state \<Rightarrow> unit result" where
  "daemonStop s = serviceStop (s\<lparr>app_runing := False\<rparr>)"

section \<open>Spawning\<close>

text \<open>\<open>cmd.Start()\<close>: the next outcome of \<open>starts\<close>; the error it returns is not looked at.\<close>

definition cmdStart :: "string list \<Rightarrow> state \<Rightarrow> Cmd \<times> state" where
  "cmdStart argv s =
    (let r = (case starts s of [] \<Rightarrow> None | x # xs \<Rightarrow> x);
         s1 = s\<lparr>starts := tl (starts s)\<rparr>
     in (\<lparr>Process = r, ProcessState = None\<rparr>, emit (CmdStart argv r) s1))"

definition workerArgv :: "state \<Rightarrow> string \<Rightarrow> string \<Rightarrow> string \<Rightarrow> string list" where
  "workerArgv s k pid path =
     [Args0 s, ''-daemon'', ''-appkey='' @ k, ''-pipe='' @ pipeName s, ''-pid='' @ pid,
      ''-appkey='' @ flagAppKey s, ''-conf='' @ path]"

fun spawnLoop :: "string list \<Rightarrow> string \<Rightarrow> string \<Rightarrow> state \<Rightarrow> state" where
  "spawnLoop [] pid path s = s"
| "spawnLoop (c # cs) pid path s =
     (let (cmd', s1) = cmdStart (workerArgv s c pid path) s;
          s2 = s1\<lparr>app_cmd := app_cmd s1 @ [\<lparr>key = c, cmd = cmd', runing = True, exitCount = 0\<rparr>]\<rparr>
      in spawnLoop cs pid path s2)"

definition doStart :: "state \<Rightarrow> pid_error option result" where
  "doStart s =
    (let appConfs = confs s;
         path = confPath s;
         pid = Itoa (Getpid s);
         s1 = s\<lparr>pipeName := pid\<rparr>;
         s2 = (if flagService s1 then emit (LogInfo (''service='' @ path @ '',master pid='' @ pid)) s1
               else emit (Println (''start='' @ path @ '',master pid='' @ pid)) s1);
         s3 = s2\<lparr>app_cmd := []\<rparr>;
         s4 = spawnLoop appConfs pid path s3
     in andThen (logPid s4) (\<lambda>err s5.
          case err of
            None \<Rightarrow> Return None s5
          | Some e \<Rightarrow>
              (let s6 = emit (LogErr (''start error log pid,'' @ pid_error_text e)) s5;
                   s7 = (if \<not> flagService s6 then emit (Println (pid_error_text e)) s6 else s6)
               in Return None s7)))"

text \<open>
  \<open>startWork\<close>; its only call site is commented out. \<open>ConfWithKey\<close> belongs to the
  configuration loader: it is taken to find the units of \<open>Confs()\<close>. The result is the new
  command, or \<open>None\<close> for nil.
\<close>

definition startWork :: "nat \<Rightarrow> state \<Rightarrow> Cmd option result" where
  "startWork index s =
    (if index \<ge> length (app_cmd s) then Panics s
     else (let w = app_cmd s ! index in
           if key w \<in> set (confs s)
           then (let path = confPath s;
                     pid = Itoa (Getpid s);
                     (cmd', s1) = cmdStart (workerArgv s (key w) pid path) s;
                     s2 = s1\<lparr>app_cmd := (app_cmd s1)[index := \<lparr>key = key w, cmd = cmd', runing = True, exitCount = 0\<rparr>]\<rparr>
                 in andThen (logPid s2) (\<lambda>err s3. Return (Some cmd') s3))
           else Return None s))"

section \<open>Monitoring\<close>

text \<open>
  The receive \<open><-c\<close> of the monitoring loop. It takes the next \<open>WaitDone\<close> of the pending
  events: that wait task has stored the exit state behind the command pointer and sends. A
  \<open>StopCallback\<close> that comes first runs \<open>daemonExecutable.Stop\<close>. With nothing pending the
  receive never returns.
\<close>

fun await :: "sched list \<Rightarrow> state \<Rightarrow> unit result" where
  "await [] s = Blocks (s\<lparr>pending := []\<rparr>)"
| "await (WaitDone j c # evs) s =
     Return () (s\<lparr>pending := evs,
                  app_cmd := (if j < length (app_cmd s)
                              then (app_cmd s)[j := (app_cmd s ! j)\<lparr>cmd := (cmd (app_cmd s ! j))\<lparr>ProcessState := c\<rparr>\<rparr>]
                              else app_cmd s)\<rparr>)"
| "await (StopCallback # evs) s = andThen (daemonStop s) (\<lambda>u s1. await evs s1)"

definition exitedMsg :: string where
  "exitedMsg = ''has work process exited,exit code=''"

text \<open>
  The second loop of \<open>checkWorkProcess\<close>, \<open>for i := 0; i < l; i++\<close>, with \<open>n = l - i\<close> rounds
  to go. \<open>w\<close> is a copy of \<open>app.cmd[i]\<close>, and \<open>w.runing = false\<close> writes to the copy.
\<close>

fun drainLoop :: "nat \<Rightarrow> nat \<Rightarrow> state \<Rightarrow> unit result" where
  "drainLoop i 0 s = Return () s"
| "drainLoop i (Suc n) s =
     andThen (await (pending s) s) (\<lambda>u s1.
       if i \<ge> length (app_cmd s1) then Panics s1
       else
         (let w = app_cmd s1 ! i;
              exitCode = (case ProcessState (cmd w) of None \<Rightarrow> [] | Some c \<Rightarrow> Itoa c);
              s2 = (if flagService s1 then emit (LogError (exitedMsg @ exitCode)) s1
                    else emit (Println (exitedMsg @ exitCode)) s1);
              w' = w\<lparr>runing := False\<rparr>
          in if app_runing s2 then drainLoop (i + 1) n s2 else Return () s2))"

definition checkWorkProcess :: "state \<Rightarrow> unit result" where
  "checkWorkProcess s =
    (let l = length (filter runing (app_cmd s))
     in andThen (drainLoop 0 l s) (\<lambda>u s1. Return () (clear s1)))"

definition start :: "state \<Rightarrow> (bool \<times> pid_error option) result" where
  "start s =
    (if isMaster s
     then andThen (doStart s) (\<lambda>e s1.
            andThen (checkWorkProcess s1) (\<lambda>u s2. Return (False, None) s2))
     else (let path = confPath s;
               (cmd', s1) = cmdStart [Args0 s, ''-master'', ''-start'', ''-conf='' @ path] s
           in Exits 0 s1))"

definition reload :: "state \<Rightarrow> (bool \<times> pid_error option) result" where
  "reload s =
     andThen (getWorkPids s) (\<lambda>pids s1. start (emit (Sleep 30) (signalLoop pids s1)))"

section \<open>The instance registry\<close>

text \<open>
  The read loop of \<open>mgrList\<close>: \<open>ReadString('\n')\<close> hands over the bytes up to and with the
  next line feed, or the rest of the file with \<open>io.EOF\<close>; \<open>cur\<close> holds the bytes of the line
  read so far.
\<close>

fun scanLines :: "string \<Rightarrow> string \<Rightarrow> string list" where
  "scanLines cur [] = (let line = TrimSpace cur in if line \<noteq> [] then [line] else [])"
| "scanLines cur (c # cs) =
     (if c = CHR 0x0A
      then (let line = TrimSpace (cur @ [c]) in
            (if line \<noteq> [] then [line] else []) @ scanLines [] cs)
      else scanLines (cur @ [c]) cs)"

definition mgrList :: "state \<Rightarrow> string list" where
  "mgrList s =
    (if isForce s then []
     else (case files s (Args0 s @ ''.mgr'') of None \<Rightarrow> [] | Some c \<Rightarrow> scanLines [] c))"

definition logMgr :: "state \<Rightarrow> mgr_error option \<times> state" where
  "logMgr s =
    (let cf = confPath s;
         mgrPath = Args0 s @ ''.mgr'';
         mls = mgrList s
     in if cf \<in> set mls then (None, s)
        else if mgrPath \<in> denied s then (Some MgrCreateFailed, s)
        else
          (let old = (if isForce s then []
                      else (case files s mgrPath of None \<Rightarrow> [] | Some c \<Rightarrow> c));
               s1 = s\<lparr>files := (files s)(mgrPath \<mapsto> old)\<rparr>
           in if mgrPath \<in> wfail s1 then (Some MgrWriteFailed, s1)
              else (None, s1\<lparr>files := (files s1)(mgrPath \<mapsto> old @ cf @ [CHR 0x0A])\<rparr>)))"

definition syncMgr :: "string list \<Rightarrow> state \<Rightarrow> mgr_error option \<times> state" where
  "syncMgr appList s =
    (let mgrPath = Args0 s @ ''.mgr'';
         cf = concat (map (\<lambda>v. v @ [CHR 0x0A]) appList)
     in if mgrPath \<in> denied s \<or> files s mgrPath = None then (Some MgrSyncFailed, s)
        else (let s1 = s\<lparr>files := (files s)(mgrPath \<mapsto> [])\<rparr>
              in if mgrPath \<in> wfail s1 then (Some MgrSyncFailed, s1)
                 else (None, s1\<lparr>files := (files s1)(mgrPath \<mapsto> cf)\<rparr>)))"


section \<open>A freshly started process\<close>

text \<open>
  The globals as \<open>init\<close> leaves them before the flags are parsed (\<open>runing: true\<close>, nothing
  spawned), for an executable path and a pid, on a Unix machine with no file yet.
\<close>

definition boot :: "string \<Rightarrow> int \<Rightarrow> state" where
  "boot exe p =
     \<lparr> flagDevelop = False, flagStart = False, flagStop = False, flagReload = False,
       flagDaemon = False, isInstall = False, isUninstall = False, isForce = False,
       flagService = False, isMaster = False, isClear = False,
       flagConf = [], flagName = [], flagAppKey = [], flagPipe = [], flagPPid = 0,
       pipeName = [], app_runing = True, app_cmd = [], Args0 = exe, Getpid = p,
       windows = False, confs = [], confPath = [], files = Map.empty, denied = {},
       wfail = {}, live = {}, starts = [], pending = [], trace = [] \<rparr>"

section \<open>Vocabulary of the statements\<close>

text \<open>The line the monitoring loop writes for one received completion.\<close>

definition logLine :: "state \<Rightarrow> string \<Rightarrow> event" where
  "logLine s x = (if flagService s then LogError (exitedMsg @ x) else Println (exitedMsg @ x))"

text \<open>
  The two teardown calls of \<open>clear\<close> that leave an event, and the teardown events a state
  still owes: both while \<open>isClear\<close> is unset, none after.
\<close>

definition teardown :: "event \<Rightarrow> bool" where
  "teardown e = (e = ClearLogger \<or> e = IDClear)"

definition owed :: "state \<Rightarrow> event list" where
  "owed s = (if isClear s then [] else [ClearLogger, IDClear])"

text \<open>
  What every step of the monitoring phase keeps: the executable path and the service flag,
  the keys and the \<open>runing\<close> fields of the registry, and the balance of the cleanup (the
  teardown events done plus those owed; once cleared, cleared for good with the files left
  alone; the pid file gone when the cleanup happened on the way).
\<close>

definition frame :: "state \<Rightarrow> state \<Rightarrow> bool" where
  "frame s s' =
    (Args0 s' = Args0 s \<and> flagService s' = flagService s
     \<and> map runing (app_cmd s') = map runing (app_cmd s)
     \<and> map key (app_cmd s') = map key (app_cmd s)
     \<and> (isClear s \<longrightarrow> isClear s' \<and> files s' = files s)
     \<and> filter teardown (trace s') @ owed s' = filter teardown (trace s) @ owed s
     \<and> (isClear s' \<and> \<not> isClear s \<longrightarrow> files s' (Args0 s @ ''.pid'') = None))"

text \<open>What the calls of \<open>sendSignal\<close> for a list of pids leave in the trace.\<close>

definition delivered :: "state \<Rightarrow> int list \<Rightarrow> event list" where
  "delivered s pids =
     (if windows s then map Kill (filter (\<lambda>p. p \<in> live s) pids) else map Signal pids)"

section \<open>Example states\<close>

text \<open>
  A master with two running workers, \<open>web\<close> (pid 2001) and \<open>api\<close> (pid 2002): \<open>api\<close> exits
  first, with code 1, then \<open>web\<close> with code 0.
\<close>

definition two_workers :: state where
  "two_workers =
     (boot ''/srv/app'' 1234)
       \<lparr>pipeName := ''1234'',
        app_cmd := [\<lparr>key = ''web'', cmd = \<lparr>Process = Some 2001, ProcessState = None\<rparr>,
                      runing = True, exitCount = 0\<rparr>,
                    \<lparr>key = ''api'', cmd = \<lparr>Process = Some 2002, ProcessState = None\<rparr>,
                      runing = True, exitCount = 0\<rparr>],
        pending := [WaitDone 1 (Some 1), WaitDone 0 (Some 0)]\<rparr>"

text \<open>A separate invocation of the binary that finds the pid file \<open>1234|abc:2001,2002\<close>.\<close>

definition stop_invocation :: state where
  "stop_invocation =
     (boot ''/srv/app'' 4321)\<lparr>files := [''/srv/app.pid'' \<mapsto> ''1234|abc:2001,2002'']\<rparr>"


section \<open>Mode resolution\<close>

lemma parse_isInstall:
  "isInstall (parseCommandLine args f) =
     (isInstall f \<or> flagName f \<noteq> [] \<or> (\<exists>k \<in> set args. HasPrefix k ''-install''))"
  by (simp add: parseCommandLine_def Let_def)

lemma parse_flagDaemon:
  "flagDaemon (parseCommandLine args f) = (flagDaemon f \<and> \<not> isInstall (parseCommandLine args f))"
  unfolding parse_isInstall by (simp add: parseCommandLine_def Let_def)

lemma parse_isMaster:
  "isMaster (parseCommandLine args f) = (isMaster f \<or> flagService f)"
  by (simp add: parseCommandLine_def Let_def)

lemma parse_unchanged:
  "flagDevelop (parseCommandLine args f) = flagDevelop f"
  "flagStop (parseCommandLine args f) = flagStop f"
  "flagReload (parseCommandLine args f) = flagReload f"
  "isUninstall (parseCommandLine args f) = isUninstall f"
  "flagService (parseCommandLine args f) = flagService f"
  "isForce (parseCommandLine args f) = isForce f"
  by (simp_all add: parseCommandLine_def Let_def)

lemma parse_flagStart:
  "flagStart (parseCommandLine args f) =
     ((flagStart f \<or> args = []) \<and> \<not> flagDevelop f \<and> \<not> flagStop f \<and> \<not> flagReload f
       \<and> \<not> flagDaemon (parseCommandLine args f) \<and> \<not> isInstall (parseCommandLine args f)
       \<and> \<not> isUninstall f \<and> \<not> flagService f)"
  unfolding parse_flagDaemon parse_isInstall by (auto simp add: parseCommandLine_def Let_def)

lemmas parse_fields =
  parse_flagStart parse_flagDaemon parse_isInstall parse_isMaster parse_unchanged

text \<open>
  Claim C2, as the code has it. The five precedence rules hold for every argument list and
  every outcome of the flag parser: with no argument (and so the default flags) \<open>Command\<close>
  takes the Start branch; a non-empty name sets Install; each of develop, stop, reload,
  daemon, install and service clears Start; Install clears daemon; service sets master.
  Start, when it survives, is the only mode flag that is set.
\<close>

theorem parseCommandLine_precedence:
  "commandBranch (parseCommandLine [] flag_defaults) = Some Start
   \<and> (flagName f \<noteq> [] \<longrightarrow> isInstall (parseCommandLine args f))
   \<and> (flagDevelop f \<or> flagStop f \<or> flagReload f \<or> flagDaemon f \<or> isInstall f \<or> flagService f
        \<longrightarrow> \<not> flagStart (parseCommandLine args f))
   \<and> (isInstall (parseCommandLine args f) \<longrightarrow> \<not> flagDaemon (parseCommandLine args f))
   \<and> (flagService f \<longrightarrow> isMaster (parseCommandLine args f))
   \<and> (flagStart (parseCommandLine args f) \<longrightarrow> modeFlags (parseCommandLine args f) = [Start])"
proof -
  have r1: "commandBranch (parseCommandLine [] flag_defaults) = Some Start"
    by (simp add: commandBranch_def parse_fields flag_defaults_def)
  have r6: "flagStart (parseCommandLine args f) \<longrightarrow> modeFlags (parseCommandLine args f) = [Start]"
    unfolding modeFlags_def by (auto simp add: parse_fields)
  show ?thesis using r1 r6 by (auto simp add: parse_fields)
qed

theorem parseCommandLine_precedence_witness:
  "isInstall (parseCommandLine [''-name=svc'', ''-service'', ''-daemon'']
      (flag_defaults\<lparr>flagName := ''svc'', flagService := True, flagDaemon := True\<rparr>))
   \<and> \<not> flagStart (parseCommandLine [''-name=svc'', ''-service'', ''-daemon'']
      (flag_defaults\<lparr>flagName := ''svc'', flagService := True, flagDaemon := True\<rparr>))
   \<and> \<not> flagDaemon (parseCommandLine [''-name=svc'', ''-service'', ''-daemon'']
      (flag_defaults\<lparr>flagName := ''svc'', flagService := True, flagDaemon := True\<rparr>))
   \<and> isMaster (parseCommandLine [''-name=svc'', ''-service'', ''-daemon'']
      (flag_defaults\<lparr>flagName := ''svc'', flagService := True, flagDaemon := True\<rparr>))
   \<and> modeFlags (parseCommandLine [''-start''] (flag_defaults\<lparr>flagStart := True\<rparr>)) = [Start]"
  using parseCommandLine_precedence [of "flag_defaults\<lparr>flagName := ''svc'', flagService := True, flagDaemon := True\<rparr>"
      "[''-name=svc'', ''-service'', ''-daemon'']"]
    parseCommandLine_precedence [of "flag_defaults\<lparr>flagStart := True\<rparr>" "[''-start'']"]
  by (simp add: flag_defaults_def parse_fields HasPrefix_def)

text \<open>
  The resolved flags need not name exactly one mode. With \<open>-force\<close> alone no mode flag is
  set and \<open>Command\<close> takes no branch (the process goes on to serve in the foreground); with
  \<open>-stop -reload\<close> both flags stay set, and the order of the branches in \<open>Command\<close> decides.
\<close>

theorem parseCommandLine_one_mode_counterexample:
  "modeFlags (parseCommandLine [''-force''] (flag_defaults\<lparr>isForce := True\<rparr>)) = []
   \<and> commandBranch (parseCommandLine [''-force''] (flag_defaults\<lparr>isForce := True\<rparr>)) = None
   \<and> modeFlags (parseCommandLine [''-stop'', ''-reload'']
        (flag_defaults\<lparr>flagStop := True, flagReload := True\<rparr>)) = [Stop, Reload]"
  by (simp add: modeFlags_def commandBranch_def parse_fields flag_defaults_def HasPrefix_def)

section \<open>Removing the pid file\<close>

text \<open>
  With no pid file, \<open>removePid\<close> returns the error of \<open>os.Remove\<close>: a call on a missing file
  does not succeed.
\<close>

theorem removePid_missing_counterexample:
  "fst (removePid (boot ''/srv/app'' 1234)) = Some NoSuchFile"
  by (simp add: removePid_def boot_def)

text \<open>
  Claim C8, as the code has it. \<open>removePid\<close> is idempotent in what it does to the files:
  after it the pid file is gone and a second call changes nothing. The second call returns
  the missing-file error all the same.
\<close>

theorem removePid_idempotent_effect:
  "files (snd (removePid s)) (Args0 s @ ''.pid'') = None
   \<and> snd (removePid (snd (removePid s))) = snd (removePid s)
   \<and> fst (removePid (snd (removePid s))) = Some NoSuchFile"
  by (simp add: removePid_def Let_def split: option.splits)

section \<open>Reading a pid file without a colon\<close>

lemma Split_no_sep: "sep \<notin> set c \<Longrightarrow> Split c sep = [c]"
  by (induction c) auto

text \<open>
  Claim C10. With no pid file \<open>getWorkPids\<close> returns the empty result. With a pid file whose
  content has no \<open>:\<close> (the empty file is one) it panics on \<open>cs[1]\<close>, and so do \<open>stop\<close> and
  \<open>reload\<close>, which call it first.
\<close>

theorem getWorkPids_total_only_if_missing:
  "(files s (Args0 s @ ''.pid'') = None \<longrightarrow> getWorkPids s = Return [] s)
   \<and> (\<forall>c. files s (Args0 s @ ''.pid'') = Some c \<and> CHR '':'' \<notin> set c \<longrightarrow>
          getWorkPids s = Panics s \<and> stop s = Panics s \<and> reload s = Panics s)"
  by (simp add: getWorkPids_def stop_def reload_def Let_def Split_no_sep)

theorem getWorkPids_total_only_if_missing_witness:
  "getWorkPids (boot ''/srv/app'' 1234) = Return [] (boot ''/srv/app'' 1234)
   \<and> stop ((boot ''/srv/app'' 1234)\<lparr>files := [''/srv/app.pid'' \<mapsto> []]\<rparr>)
       = Panics ((boot ''/srv/app'' 1234)\<lparr>files := [''/srv/app.pid'' \<mapsto> []]\<rparr>)"
  using getWorkPids_total_only_if_missing [of "boot ''/srv/app'' 1234"]
    getWorkPids_total_only_if_missing [of "(boot ''/srv/app'' 1234)\<lparr>files := [''/srv/app.pid'' \<mapsto> []]\<rparr>"]
  by (simp add: boot_def)

section \<open>Monitoring: what every step keeps\<close>

lemma frame_refl: "frame s s"
  by (simp add: frame_def)

lemma frame_trans: "frame s s1 \<Longrightarrow> frame s1 s2 \<Longrightarrow> frame s s2"
  unfolding frame_def by (intro conjI; (auto)[1])

lemma frame_clear: "frame s (clear s)"
  by (simp add: frame_def clear_def removePid_def emit_def teardown_def owed_def Let_def
      split: option.splits)

lemma signalLoop_trace:
  "signalLoop pids s = s\<lparr>trace := trace s @ delivered s pids\<rparr>"
proof (induction pids arbitrary: s)
  case Nil
  then show ?case by (simp add: delivered_def)
next
  case (Cons p ps)
  show ?case
    by (simp add: Cons.IH sendSignal_def emit_def delivered_def)
qed

lemma filter_teardown_delivered: "filter teardown (delivered s pids) = []"
  by (auto simp add: delivered_def teardown_def filter_empty_conv)

lemma frame_signalLoop: "frame s (signalLoop pids s)"
  by (simp add: signalLoop_trace frame_def filter_teardown_delivered owed_def)

lemma getWorkPids_cases:
  "(\<exists>pids. getWorkPids s = Return pids s) \<or> getWorkPids s = Panics s"
  by (simp add: getWorkPids_def Let_def split: option.splits)

lemma frame_serviceStop:
  assumes "serviceStop s = Return u s'"
  shows "frame s s'"
proof -
  from getWorkPids_cases [of s] show ?thesis
  proof
    assume "\<exists>pids. getWorkPids s = Return pids s"
    then obtain pids where g: "getWorkPids s = Return pids s" ..
    with assms have "s' = clear (signalLoop pids s)"
      by (simp add: serviceStop_def)
    then show ?thesis
      using frame_trans [OF frame_signalLoop frame_clear] by simp
  next
    assume "getWorkPids s = Panics s"
    with assms show ?thesis by (simp add: serviceStop_def)
  qed
qed

lemma frame_app_runing: "frame s (s\<lparr>app_runing := b\<rparr>)"
  by (simp add: frame_def owed_def)

lemma frame_daemonStop:
  assumes "daemonStop s = Return u s'"
  shows "frame s s'"
  using assms frame_trans [OF frame_app_runing frame_serviceStop] by (simp add: daemonStop_def)

lemma andThen_Return:
  "andThen r f = Return y s' \<Longrightarrow> \<exists>x s1. r = Return x s1 \<and> f x s1 = Return y s'"
  by (cases r) simp_all

lemma frame_wait:
  "frame s (s\<lparr>pending := evs,
       app_cmd := (if j < length (app_cmd s)
                   then (app_cmd s)[j := (app_cmd s ! j)\<lparr>cmd := (cmd (app_cmd s ! j))\<lparr>ProcessState := c\<rparr>\<rparr>]
                   else app_cmd s)\<rparr>)"
  by (simp add: frame_def owed_def map_update list_update_same_conv)

lemma frame_await:
  "await evs s = Return u s' \<Longrightarrow> frame s s'"
proof (induction evs s rule: await.induct)
  case (1 s)
  then show ?case by simp
next
  case (2 j c evs s)
  then have "s' = s\<lparr>pending := evs,
       app_cmd := (if j < length (app_cmd s)
                   then (app_cmd s)[j := (app_cmd s ! j)\<lparr>cmd := (cmd (app_cmd s ! j))\<lparr>ProcessState := c\<rparr>\<rparr>]
                   else app_cmd s)\<rparr>"
    by simp
  then show ?case by (simp only: frame_wait)
next
  case (3 evs s)
  from 3(2) obtain x s1 where d: "daemonStop s = Return x s1" and a: "await evs s1 = Return u s'"
    by (auto dest: andThen_Return)
  from 3(1) [OF a] frame_daemonStop [OF d] show ?case
    by (rule frame_trans [rotated])
qed

lemma frame_emit_log: "frame s (emit (logLine s x) s)"
  by (simp add: frame_def emit_def logLine_def teardown_def owed_def)

lemma emit_logLine:
  "emit (logLine s x) s =
     (if flagService s then emit (LogError (exitedMsg @ x)) s else emit (Println (exitedMsg @ x)) s)"
  by (simp add: logLine_def)

lemma drain_step:
  "drainLoop i (Suc n) s =
     andThen (await (pending s) s) (\<lambda>u s1.
       if i \<ge> length (app_cmd s1) then Panics s1
       else (let s2 = emit (logLine s1 (case ProcessState (cmd (app_cmd s1 ! i)) of None \<Rightarrow> [] | Some c \<Rightarrow> Itoa c)) s1
             in if app_runing s2 then drainLoop (i + 1) n s2 else Return () s2))"
  by (simp add: emit_logLine Let_def cong: if_cong)

lemma frame_drainLoop:
  "drainLoop i n s = Return u s' \<Longrightarrow> frame s s'"
proof (induction n arbitrary: i s)
  case 0
  then show ?case by (simp add: frame_refl)
next
  case (Suc n)
  from Suc.prems obtain x s1 where a: "await (pending s) s = Return x s1"
    and r: "(if i \<ge> length (app_cmd s1) then Panics s1
       else (let s2 = emit (logLine s1 (case ProcessState (cmd (app_cmd s1 ! i)) of None \<Rightarrow> [] | Some c \<Rightarrow> Itoa c)) s1
             in if app_runing s2 then drainLoop (i + 1) n s2 else Return () s2)) = Return u s'"
    unfolding drain_step by (auto dest: andThen_Return)
  let ?s2 = "emit (logLine s1 (case ProcessState (cmd (app_cmd s1 ! i)) of None \<Rightarrow> [] | Some c \<Rightarrow> Itoa c)) s1"
  have f1: "frame s ?s2"
    using frame_trans [OF frame_await [OF a] frame_emit_log] .
  from r have "(app_runing ?s2 \<and> drainLoop (i + 1) n ?s2 = Return u s') \<or> s' = ?s2"
    by (auto simp add: Let_def split: if_splits)
  then show ?case
  proof
    assume "app_runing ?s2 \<and> drainLoop (i + 1) n ?s2 = Return u s'"
    then have "frame ?s2 s'" using Suc.IH by blast
    with f1 show ?thesis by (rule frame_trans)
  next
    assume "s' = ?s2"
    with f1 show ?thesis by simp
  qed
qed

lemma frame_checkWorkProcess:
  assumes "checkWorkProcess s = Return u s'"
  shows "frame s s' \<and> isClear s'"
proof -
  from assms obtain x s1 where d: "drainLoop 0 (length (filter runing (app_cmd s))) s = Return x s1"
    and c: "s' = clear s1"
    unfolding checkWorkProcess_def Let_def by (auto dest: andThen_Return)
  have "frame s s'" using frame_trans [OF frame_drainLoop [OF d] frame_clear] c by simp
  moreover have "isClear s'" using c by (simp add: clear_def removePid_def emit_def Let_def split: option.splits)
  ultimately show ?thesis ..
qed


lemma await_WaitDone:
  "await (WaitDone j c # evs) s =
     Return () (s\<lparr>pending := evs,
                  app_cmd := (if j < length (app_cmd s)
                              then (app_cmd s)[j := (app_cmd s ! j)\<lparr>cmd := (cmd (app_cmd s ! j))\<lparr>ProcessState := c\<rparr>\<rparr>]
                              else app_cmd s)\<rparr>)"
  by simp

lemma logLine_upd:
  "logLine (s\<lparr>pending := p\<rparr>) = logLine s"
  "logLine (s\<lparr>app_cmd := a\<rparr>) = logLine s"
  "logLine (s\<lparr>trace := t\<rparr>) = logLine s"
  by (simp_all add: logLine_def fun_eq_iff)

lemma drainLoop_waits:
  "pending s = map (case_prod WaitDone) xs @ rest \<Longrightarrow> length xs = n \<Longrightarrow> app_runing s \<Longrightarrow>
   i + n \<le> length (app_cmd s) \<Longrightarrow>
   \<exists>s' codes. drainLoop i n s = Return () s' \<and> length codes = n
      \<and> s' = s\<lparr>pending := rest, app_cmd := app_cmd s', trace := trace s @ map (logLine s) codes\<rparr>
      \<and> length (app_cmd s') = length (app_cmd s)"
proof (induction n arbitrary: i s xs)
  case 0
  then show ?case by simp
next
  case (Suc n)
  from Suc.prems(2) obtain x xs' where xs: "xs = x # xs'" and len: "length xs' = n"
    by (cases xs) auto
  obtain j c where x: "x = (j, c)" by (cases x)
  let ?cmds = "(if j < length (app_cmd s)
                then (app_cmd s)[j := (app_cmd s ! j)\<lparr>cmd := (cmd (app_cmd s ! j))\<lparr>ProcessState := c\<rparr>\<rparr>]
                else app_cmd s)"
  let ?s1 = "s\<lparr>pending := map (case_prod WaitDone) xs' @ rest, app_cmd := ?cmds\<rparr>"
  let ?code = "(case ProcessState (cmd (app_cmd ?s1 ! i)) of None \<Rightarrow> [] | Some c \<Rightarrow> Itoa c)"
  let ?s2 = "emit (logLine ?s1 ?code) ?s1"
  have aw: "await (pending s) s = Return () ?s1"
    using Suc.prems(1) xs x by simp
  have lencmds: "length ?cmds = length (app_cmd s)" by simp
  have i_ok: "\<not> length (app_cmd ?s1) \<le> i" using Suc.prems(4) by simp
  have run2: "app_runing ?s2" using Suc.prems(3) by (simp add: emit_def)
  have step: "drainLoop i (Suc n) s = drainLoop (i + 1) n ?s2"
    unfolding drain_step aw using i_ok run2 by (simp add: Let_def)
  have p2: "pending ?s2 = map (case_prod WaitDone) xs' @ rest" by (simp add: emit_def)
  have b2: "(i + 1) + n \<le> length (app_cmd ?s2)" using Suc.prems(4) by (simp add: emit_def)
  from Suc.IH [OF p2 len run2 b2]
  obtain s' codes where d: "drainLoop (i + 1) n ?s2 = Return () s'" and lc: "length codes = n"
    and eq: "s' = ?s2\<lparr>pending := rest, app_cmd := app_cmd s', trace := trace ?s2 @ map (logLine ?s2) codes\<rparr>"
    and la: "length (app_cmd s') = length (app_cmd ?s2)"
    by blast
  have eq': "s' = s\<lparr>pending := rest, app_cmd := app_cmd s', trace := trace s @ map (logLine s) (?code # codes)\<rparr>"
    by (subst eq) (simp add: emit_def logLine_upd)
  have la': "length (app_cmd s') = length (app_cmd s)" using la by (simp add: emit_def)
  from step d lc eq' la' show ?case
    by (intro exI [of _ s'] exI [of _ "?code # codes"]) simp
qed

lemma checkWorkProcess_waits:
  assumes "app_runing s" "pending s = map (case_prod WaitDone) xs @ rest"
    "length xs = length (filter runing (app_cmd s))"
  shows "\<exists>s' codes. checkWorkProcess s = Return () (clear s') \<and> pending s' = rest
      \<and> length codes = length (filter runing (app_cmd s))
      \<and> trace s' = trace s @ map (logLine s) codes"
proof -
  have "0 + length (filter runing (app_cmd s)) \<le> length (app_cmd s)" by simp
  from drainLoop_waits [OF assms(2) assms(3) assms(1) this]
  obtain s' codes where d: "drainLoop 0 (length (filter runing (app_cmd s))) s = Return () s'"
    and lc: "length codes = length (filter runing (app_cmd s))"
    and eq: "s' = s\<lparr>pending := rest, app_cmd := app_cmd s', trace := trace s @ map (logLine s) codes\<rparr>"
    by blast
  have "pending s' = rest" by (subst eq) simp
  moreover have "trace s' = trace s @ map (logLine s) codes" by (subst eq) simp
  moreover have "checkWorkProcess s = Return () (clear s')"
    by (simp add: checkWorkProcess_def d)
  ultimately show ?thesis using lc by blast
qed




text \<open>
  The \<open>runing\<close> fields of the registry are the same after monitoring as before: the loop
  clears the field of its copy \<open>w\<close> only.
\<close>

lemma checkWorkProcess_keeps_runing:
  assumes "checkWorkProcess s = Return u s'"
  shows "map runing (app_cmd s') = map runing (app_cmd s)"
  using frame_checkWorkProcess [OF assms] by (simp add: frame_def)

section \<open>Monitoring: drains and log lines\<close>

text \<open>
  Claim C1, as the code has it. While the master's \<open>runing\<close> flag is set and the wait task
  of every tracked unit comes back, monitoring receives from the completion channel exactly
  once per tracked unit, in the order the completions arrive, writes one line
  \<open>has work process exited,exit code=...\<close> per receive (a line carries no key), keeps
  the keys of the registry, and ends with the cleanup. Which exit code a line shows and what
  becomes of the \<open>runing\<close> fields is not part of this statement.
\<close>

theorem checkWorkProcess_one_drain_per_unit:
  assumes "app_runing s" and "pending s = map (case_prod WaitDone) xs @ rest"
    and "length xs = length (filter runing (app_cmd s))"
  shows "\<exists>s' codes. checkWorkProcess s = Return () (clear s') \<and> pending s' = rest
      \<and> length codes = length (filter runing (app_cmd s))
      \<and> trace s' = trace s @ map (logLine s) codes
      \<and> map key (app_cmd s') = map key (app_cmd s)"
proof -
  from checkWorkProcess_waits [OF assms]
  obtain s' codes where c: "checkWorkProcess s = Return () (clear s')" and p: "pending s' = rest"
    and l: "length codes = length (filter runing (app_cmd s))"
    and t: "trace s' = trace s @ map (logLine s) codes"
    by blast
  have "frame s (clear s')" using frame_checkWorkProcess [OF c] ..
  then have "map key (app_cmd (clear s')) = map key (app_cmd s)" by (simp add: frame_def)
  moreover have "app_cmd (clear s') = app_cmd s'"
    by (simp add: clear_def removePid_def emit_def Let_def split: option.splits)
  ultimately show ?thesis using c p l t by auto
qed

theorem checkWorkProcess_one_drain_per_unit_witness:
  "\<exists>s' codes. checkWorkProcess two_workers = Return () (clear s') \<and> pending s' = []
      \<and> length codes = 2 \<and> trace s' = map (logLine two_workers) codes
      \<and> map key (app_cmd s') = [''web'', ''api'']"
proof -
  have h1: "app_runing two_workers"
    by (simp add: two_workers_def boot_def)
  have h2: "pending two_workers = map (case_prod WaitDone) [(1, Some 1), (0, Some 0)] @ []"
    by (simp add: two_workers_def boot_def)
  have h3: "length [(1::nat, Some (1::int)), (0, Some 0)] = length (filter runing (app_cmd two_workers))"
    by (simp add: two_workers_def boot_def)
  have k: "map key (app_cmd two_workers) = [''web'', ''api'']" "trace two_workers = []"
    "length (filter runing (app_cmd two_workers)) = 2"
    by (simp_all add: two_workers_def boot_def)
  from checkWorkProcess_one_drain_per_unit [OF h1 h2 h3] show ?thesis
    by (simp add: k)
qed

text \<open>
  Two workers, the second exits first with code 1. The first line shows no exit code (the
  loop reads entry 0, which is still running) and names no key, and both registry entries
  are still marked running at the end.
\<close>

theorem checkWorkProcess_counterexample:
  "map runing (app_cmd (final (checkWorkProcess two_workers))) = [True, True]
   \<and> trace (final (checkWorkProcess two_workers)) =
       [Println ''has work process exited,exit code='',
        Println ''has work process exited,exit code=1'', ClearLogger, IDClear]"
  by (simp add: checkWorkProcess_def two_workers_def boot_def numeral_2_eq_2 emit_def exitedMsg_def
      clear_def removePid_def Itoa_def utoa.simps digit_def Let_def)

section \<open>Cleanup\<close>



section \<open>Stop and reload\<close>

lemma getWorkPids_stop_invocation:
  "getWorkPids stop_invocation = Return [2001, 2002] stop_invocation"
  by (simp add: getWorkPids_def stop_invocation_def boot_def Atoi_def digitVal_def Let_def)

text \<open>
  Claim C5, as the code has it. For a pid file that \<open>getWorkPids\<close> reads as \<open>pids\<close>, \<open>stop\<close>
  signals each of them once, in order, sleeps 30 milliseconds and exits with code 0. On a
  platform other than Windows the signal is the interrupt; on Windows \<open>sendSignal\<close> kills
  the process instead, and only a process that exists.
\<close>

theorem stop_signals_then_exits_0:
  assumes "getWorkPids s = Return pids s"
  shows "(\<not> windows s \<longrightarrow>
            stop s = Exits 0 (s\<lparr>trace := trace s @ map Signal pids @ [Sleep 30]\<rparr>))
       \<and> (windows s \<longrightarrow>
            stop s = Exits 0 (s\<lparr>trace := trace s @ map Kill (filter (\<lambda>p. p \<in> live s) pids) @ [Sleep 30]\<rparr>))"
  using assms by (simp add: stop_def signalLoop_trace emit_def delivered_def)

theorem stop_signals_then_exits_0_witness:
  "getWorkPids stop_invocation = Return [2001, 2002] stop_invocation
   \<and> \<not> windows stop_invocation
   \<and> stop stop_invocation = Exits 0 (stop_invocation\<lparr>trace := [Signal 2001, Signal 2002, Sleep 30]\<rparr>)
   \<and> windows (stop_invocation\<lparr>windows := True, live := {2001}\<rparr>)
   \<and> stop (stop_invocation\<lparr>windows := True, live := {2001}\<rparr>)
       = Exits 0 (stop_invocation\<lparr>windows := True, live := {2001}, trace := [Kill 2001, Sleep 30]\<rparr>)"
proof -
  have g: "getWorkPids stop_invocation = Return [2001, 2002] stop_invocation"
    by (rule getWorkPids_stop_invocation)
  have g': "getWorkPids (stop_invocation\<lparr>windows := True, live := {2001}\<rparr>)
      = Return [2001, 2002] (stop_invocation\<lparr>windows := True, live := {2001}\<rparr>)"
    by (simp add: getWorkPids_def stop_invocation_def boot_def Atoi_def digitVal_def Let_def)
  show ?thesis
    using stop_signals_then_exits_0 [OF g] stop_signals_then_exits_0 [OF g'] g
    by (simp add: stop_invocation_def boot_def)
qed

text \<open>On Windows the two recorded workers are killed; no interrupt signal is sent.\<close>

theorem stop_windows_counterexample:
  "stop (stop_invocation\<lparr>windows := True, live := {2001, 2002}\<rparr>)
     = Exits 0 (stop_invocation\<lparr>windows := True, live := {2001, 2002},
                  trace := [Kill 2001, Kill 2002, Sleep 30]\<rparr>)"
  by (simp add: stop_def getWorkPids_def stop_invocation_def boot_def Atoi_def digitVal_def
      sendSignal_def emit_def Let_def)

text \<open>
  Claim C4, as the code has it. For a pid file that \<open>getWorkPids\<close> reads as \<open>pids\<close>,
  \<open>reload\<close> signals each of them once, in order, and no other pid, sleeps 30 milliseconds
  and then calls \<open>start\<close> once; in an invocation that is not the master this launches one
  new master and exits with code 0. On a platform other than Windows the signal is the
  interrupt; on Windows \<open>sendSignal\<close> kills the process instead, and only a process that
  exists.
\<close>

theorem reload_signals_then_starts_once:
  assumes "getWorkPids s = Return pids s"
  shows "(\<not> windows s \<longrightarrow>
            reload s = start (s\<lparr>trace := trace s @ map Signal pids @ [Sleep 30]\<rparr>))
       \<and> (windows s \<longrightarrow>
            reload s = start (s\<lparr>trace := trace s @ map Kill (filter (\<lambda>p. p \<in> live s) pids) @ [Sleep 30]\<rparr>))
       \<and> (\<not> windows s \<and> \<not> isMaster s \<longrightarrow>
            reload s = Exits 0 (s\<lparr>starts := tl (starts s),
               trace := trace s @ map Signal pids @
                 [Sleep 30, CmdStart [Args0 s, ''-master'', ''-start'', ''-conf='' @ confPath s]
                     (case starts s of [] \<Rightarrow> None | x # xs \<Rightarrow> x)]\<rparr>))"
  using assms
  by (simp add: reload_def start_def signalLoop_trace emit_def delivered_def cmdStart_def Let_def)

theorem reload_signals_then_starts_once_witness:
  "reload (stop_invocation\<lparr>confPath := ''/srv/app.conf'', starts := [Some 5000]\<rparr>)
     = Exits 0 (stop_invocation\<lparr>confPath := ''/srv/app.conf'', starts := [],
          trace := [Signal 2001, Signal 2002, Sleep 30,
                    CmdStart [''/srv/app'', ''-master'', ''-start'', ''-conf=/srv/app.conf''] (Some 5000)]\<rparr>)
   \<and> reload (stop_invocation\<lparr>windows := True, live := {2002}\<rparr>)
     = start (stop_invocation\<lparr>windows := True, live := {2002}, trace := [Kill 2002, Sleep 30]\<rparr>)"
proof -
  have g: "getWorkPids (stop_invocation\<lparr>confPath := ''/srv/app.conf'', starts := [Some 5000]\<rparr>)
      = Return [2001, 2002] (stop_invocation\<lparr>confPath := ''/srv/app.conf'', starts := [Some 5000]\<rparr>)"
    by (simp add: getWorkPids_def stop_invocation_def boot_def Atoi_def digitVal_def Let_def)
  have g': "getWorkPids (stop_invocation\<lparr>windows := True, live := {2002}\<rparr>)
      = Return [2001, 2002] (stop_invocation\<lparr>windows := True, live := {2002}\<rparr>)"
    by (simp add: getWorkPids_def stop_invocation_def boot_def Atoi_def digitVal_def Let_def)
  have a: "reload (stop_invocation\<lparr>confPath := ''/srv/app.conf'', starts := [Some 5000]\<rparr>)
     = Exits 0 (stop_invocation\<lparr>confPath := ''/srv/app.conf'', starts := [],
          trace := [Signal 2001, Signal 2002, Sleep 30,
                    CmdStart [''/srv/app'', ''-master'', ''-start'', ''-conf=/srv/app.conf''] (Some 5000)]\<rparr>)"
    using reload_signals_then_starts_once [OF g, THEN conjunct2, THEN conjunct2]
    by (simp add: stop_invocation_def boot_def)
  have b: "reload (stop_invocation\<lparr>windows := True, live := {2002}\<rparr>)
     = start (stop_invocation\<lparr>windows := True, live := {2002}, trace := [Kill 2002, Sleep 30]\<rparr>)"
    using reload_signals_then_starts_once [OF g', THEN conjunct2, THEN conjunct1]
    by (simp add: stop_invocation_def boot_def)
  from a b show ?thesis by (rule conjI)
qed

text \<open>On Windows the two recorded workers are killed; no interrupt signal is sent.\<close>

theorem reload_windows_counterexample:
  "reload (stop_invocation\<lparr>windows := True, live := {2001, 2002}\<rparr>)
     = Exits 0 (stop_invocation\<lparr>windows := True, live := {2001, 2002}, starts := [],
          trace := [Kill 2001, Kill 2002, Sleep 30,
                    CmdStart [''/srv/app'', ''-master'', ''-start'', ''-conf=''] None]\<rparr>)"
  by (simp add: reload_def start_def getWorkPids_def stop_invocation_def boot_def Atoi_def
      digitVal_def sendSignal_def emit_def cmdStart_def Let_def)

end
